theory Spec2Isabelle
  imports Complex_Main
begin

section \<open>Numbers and strings of the host language\<close>

text \<open>
  The score tracker is a single React component written in TypeScript. Its numbers are
  the numbers of JavaScript. A finite number is modelled by the rational it denotes and
  arithmetic on finite numbers is exact, which is what the host does as long as the
  values are integers of magnitude below \<open>2^53\<close>. Rounding, overflow to infinity and
  the sign of zero are outside the model.
\<close>

type_synonym number = rat

text \<open>
  \<open>Number(text)\<close> can also produce the three values that are not finite. They only
  occur between reading an input field and validating it.
\<close>

datatype jsnum = NaN | PosInfinity | NegInfinity | Finite number

text \<open>
  \<open>Number.isInteger(x)\<close>: true exactly for a finite number without fractional part.
  The model returns the number itself in that case, so that the code after the check
  can use it.
\<close>

fun integerValue :: "jsnum \<Rightarrow> number option" where
  "integerValue (Finite r) = (if of_int \<lfloor>r\<rfloor> = r then Some r else None)"
| "integerValue NaN = None"
| "integerValue PosInfinity = None"
| "integerValue NegInfinity = None"

text \<open>
  Strings are lists of characters. \<open>trim\<close> and \<open>toLowerCase\<close> are modelled on ASCII
  text: \<open>trim\<close> strips space, tab, line feed, vertical tab, form feed and carriage
  return from both ends, \<open>toLowerCase\<close> maps \<open>A..Z\<close> to \<open>a..z\<close> and leaves every
  other character alone. What the host does with characters beyond ASCII (further
  white space, letters with case) is outside the model.
\<close>

definition isWhiteSpace :: "char \<Rightarrow> bool" where
  "isWhiteSpace c = (c \<in> set [CHR '' '', CHR 0x09, CHR 0x0A, CHR 0x0B, CHR 0x0C, CHR 0x0D])"

definition trim :: "string \<Rightarrow> string" where
  "trim s = rev (dropWhile isWhiteSpace (rev (dropWhile isWhiteSpace s)))"

definition lowerChar :: "char \<Rightarrow> char" where
  "lowerChar c =
     (case map_of (zip ''ABCDEFGHIJKLMNOPQRSTUVWXYZ'' ''abcdefghijklmnopqrstuvwxyz'') c of
        Some l \<Rightarrow> l
      | None \<Rightarrow> c)"

definition toLowerCase :: "string \<Rightarrow> string" where
  "toLowerCase s = map lowerChar s"

section \<open>The data of the application\<close>

text \<open>The types \<open>Round\<close> and \<open>PersistedState\<close> of the source, field by field.\<close>

record Round =
  round_id :: number
  rawA :: number
  rawB :: number
  appliedA :: number
  appliedB :: number
  isDouble :: bool

record PersistedState =
  onboardingDone :: bool
  teamAName :: string
  teamBName :: string
  doubleFirstHand :: bool
  rounds :: "Round list"
  winsA :: number
  winsB :: number

definition TARGET_SCORE :: number where
  "TARGET_SCORE = 150"

definition defaultState :: PersistedState where
  "defaultState = \<lparr> onboardingDone = False, teamAName = [], teamBName = [],
     doubleFirstHand = False, rounds = [], winsA = 0, winsB = 0 \<rparr>"

text \<open>
  The messages the component can show. Each constructor stands for one string literal
  passed to \<open>setError\<close>; \<open>NoError\<close> is the empty string.
  \<^item> \<open>NamesRequired\<close>: "Escribe el nombre de ambos equipos."
  \<^item> \<open>NamesMustDiffer\<close>: "Los nombres de los equipos deben ser distintos."
  \<^item> \<open>IntegersRequired\<close>: "Ingresa numeros enteros para ambos puntajes."
  \<^item> \<open>PointsRequired\<close>: "Al menos un equipo debe tener puntos."
  \<^item> \<open>BackupFormatInvalid\<close>: "El formato del respaldo no es valido."
  \<^item> \<open>BackupUnreadable\<close>: "No se pudo leer el archivo de respaldo."
\<close>

datatype message = NoError | NamesRequired | NamesMustDiffer | IntegersRequired
  | PointsRequired | BackupFormatInvalid | BackupUnreadable

text \<open>
  The winner banner is either the empty string or the text announcing that the named
  team won the match.
\<close>

datatype banner = NoBanner | Won string

text \<open>
  The state of the component: the persisted aggregate and the \<open>useState\<close> cells that
  hold the form inputs, the message, the banner and the settings panel flag.
\<close>

record App =
  state :: PersistedState
  teamAInput :: string
  teamBInput :: string
  doubleInput :: bool
  roundA :: string
  roundB :: string
  error :: message
  winnerBanner :: banner
  settingsOpen :: bool

text \<open>The component as first rendered from a loaded state.\<close>

definition initialApp :: "PersistedState \<Rightarrow> App" where
  "initialApp st = \<lparr> state = st, teamAInput = teamAName st, teamBInput = teamBName st,
     doubleInput = doubleFirstHand st, roundA = [], roundB = [], error = NoError,
     winnerBanner = NoBanner, settingsOpen = False \<rparr>"

section \<open>Scoring\<close>

text \<open>
  The \<open>reduce\<close> that sums the applied points of both teams over a ledger, starting
  from \<open>{a: 0, b: 0}\<close>. The pair is \<open>(a, b)\<close>.
\<close>

definition totals :: "Round list \<Rightarrow> number \<times> number" where
  "totals rs = foldl (\<lambda>acc r. (fst acc + appliedA r, snd acc + appliedB r)) (0, 0) rs"

text \<open>
  The pieces of \<open>addRound\<close>, in the order of the source. \<open>rawInput\<close> reads one input
  field (\<open>Number\<close> is the host's conversion, a parameter of the model); \<open>firstHandDouble\<close>
  is the local constant \<open>isDouble\<close>; \<open>nextRound\<close> is the record built for the hand,
  whose identifier is the clock reading \<open>now\<close> (\<open>Date.now()\<close>); \<open>aWon\<close> and \<open>bWon\<close>
  are the two win tests on the totals of the candidate ledger.
\<close>

definition rawInput :: "(string \<Rightarrow> jsnum) \<Rightarrow> string \<Rightarrow> jsnum" where
  "rawInput Number field = (if field = [] then Finite 0 else Number field)"

definition firstHandDouble :: "PersistedState \<Rightarrow> bool" where
  "firstHandDouble st = (doubleFirstHand st \<and> length (rounds st) = 0)"

definition nextRound :: "number \<Rightarrow> number \<Rightarrow> number \<Rightarrow> PersistedState \<Rightarrow> Round" where
  "nextRound now a b st =
     \<lparr> round_id = now, rawA = a, rawB = b,
       appliedA = (if firstHandDouble st then a * 2 else a),
       appliedB = (if firstHandDouble st then b * 2 else b),
       isDouble = firstHandDouble st \<rparr>"

definition nextRounds :: "number \<Rightarrow> number \<Rightarrow> number \<Rightarrow> PersistedState \<Rightarrow> Round list" where
  "nextRounds now a b st = rounds st @ [nextRound now a b st]"

definition aWon :: "number \<times> number \<Rightarrow> bool" where
  "aWon t = (fst t \<ge> TARGET_SCORE \<and> fst t > snd t)"

definition bWon :: "number \<times> number \<Rightarrow> bool" where
  "bWon t = (snd t \<ge> TARGET_SCORE \<and> snd t > fst t)"

text \<open>
  \<open>addRound\<close>. The handler runs on the state of the last render, which is also the
  \<open>prev\<close> its updaters receive: the component handles one event at a time. The first
  test of the source, \<open>!Number.isInteger(rawA) || !Number.isInteger(rawB) || rawA < 0 ||
  rawB < 0\<close>, is the \<open>case\<close> below: both values are integers and neither is negative,
  or the message is set and the handler returns.
\<close>

definition addRound :: "(string \<Rightarrow> jsnum) \<Rightarrow> number \<Rightarrow> App \<Rightarrow> App" where
  "addRound Number now app0 =
     (let app = app0\<lparr>error := NoError\<rparr>;
          st = state app
      in case (integerValue (rawInput Number (roundA app)),
               integerValue (rawInput Number (roundB app))) of
           (Some a, Some b) \<Rightarrow>
             if a < 0 \<or> b < 0 then app\<lparr>error := IntegersRequired\<rparr>
             else if a = 0 \<and> b = 0 then app\<lparr>error := PointsRequired\<rparr>
             else
               (let nextTotals = totals (nextRounds now a b st) in
                (if aWon nextTotals \<or> bWon nextTotals
                 then app\<lparr>state := st\<lparr>winsA := (if aWon nextTotals then winsA st + 1 else winsA st),
                                        winsB := (if bWon nextTotals then winsB st + 1 else winsB st),
                                        rounds := []\<rparr>,
                          winnerBanner := Won (if aWon nextTotals then teamAName st else teamBName st)\<rparr>
                 else app\<lparr>state := st\<lparr>rounds := nextRounds now a b st\<rparr>\<rparr>)
                \<lparr>roundA := [], roundB := []\<rparr>)
         | _ \<Rightarrow> app\<lparr>error := IntegersRequired\<rparr>)"

text \<open>
  \<open>rounds.slice(0, -1)\<close>: a negative end counts from the end of the array and is
  clamped at 0, so the empty array stays empty.
\<close>

definition slice0 :: "'a list \<Rightarrow> int \<Rightarrow> 'a list" where
  "slice0 xs e =
     (let len = int (length xs);
          k = (if e < 0 then max (len + e) 0 else min e len)
      in take (nat k) xs)"

definition undoRound :: "App \<Rightarrow> App" where
  "undoRound app = app\<lparr>state := (state app)\<lparr>rounds := slice0 (rounds (state app)) (- 1)\<rparr>\<rparr>"

definition resetCurrentGame :: "App \<Rightarrow> App" where
  "resetCurrentGame app = app\<lparr>state := (state app)\<lparr>rounds := []\<rparr>, winnerBanner := NoBanner\<rparr>"

section \<open>Configuration\<close>

text \<open>
  \<open>saveOnboarding\<close> and \<open>saveSettings\<close>. A string is falsy exactly when it is empty.
  On success both store the trimmed names and the rule flag of the form;
  \<open>saveOnboarding\<close> also marks the onboarding as done and keeps the ledger
  (\<open>prev.rounds.length > 0 ? prev.rounds : []\<close>), \<open>saveSettings\<close> closes the panel.
\<close>

definition saveOnboarding :: "App \<Rightarrow> App" where
  "saveOnboarding app =
     (let a = trim (teamAInput app);
          b = trim (teamBInput app)
      in if a = [] \<or> b = [] then app\<lparr>error := NamesRequired\<rparr>
         else if toLowerCase a = toLowerCase b then app\<lparr>error := NamesMustDiffer\<rparr>
         else app\<lparr>state := (state app)\<lparr>onboardingDone := True, teamAName := a, teamBName := b,
                                          doubleFirstHand := doubleInput app,
                                          rounds := (if length (rounds (state app)) > 0
                                                     then rounds (state app) else [])\<rparr>,
                  error := NoError\<rparr>)"

definition saveSettings :: "App \<Rightarrow> App" where
  "saveSettings app =
     (let a = trim (teamAInput app);
          b = trim (teamBInput app)
      in if a = [] \<or> b = [] then app\<lparr>error := NamesRequired\<rparr>
         else if toLowerCase a = toLowerCase b then app\<lparr>error := NamesMustDiffer\<rparr>
         else app\<lparr>state := (state app)\<lparr>teamAName := a, teamBName := b,
                                          doubleFirstHand := doubleInput app\<rparr>,
                  error := NoError, settingsOpen := False\<rparr>)"

section \<open>Persistence and backup\<close>

text \<open>
  What \<open>JSON.parse\<close> returns: null, a boolean, a finite number, a string, an array or
  an object (its properties in order). \<open>JSON.parse\<close> and \<open>JSON.stringify\<close> themselves
  belong to the host and are parameters of the model; a parse that throws is \<open>None\<close>.
\<close>

datatype jsval = JNull | JBool bool | JNum number | JStr string
  | JArr "jsval list" | JObj "(string \<times> jsval) list"

text \<open>Truthiness, \<open>typeof\<close>, \<open>Array.isArray\<close> and the read of a property; \<open>None\<close> is \<open>undefined\<close>.\<close>

fun truthy :: "jsval \<Rightarrow> bool" where
  "truthy JNull = False"
| "truthy (JBool b) = b"
| "truthy (JNum n) = (n \<noteq> 0)"
| "truthy (JStr s) = (s \<noteq> [])"
| "truthy (JArr xs) = True"
| "truthy (JObj kvs) = True"

fun typeof :: "jsval option \<Rightarrow> string" where
  "typeof None = ''undefined''"
| "typeof (Some JNull) = ''object''"
| "typeof (Some (JBool b)) = ''boolean''"
| "typeof (Some (JNum n)) = ''number''"
| "typeof (Some (JStr s)) = ''string''"
| "typeof (Some (JArr xs)) = ''object''"
| "typeof (Some (JObj kvs)) = ''object''"

fun isArray :: "jsval option \<Rightarrow> bool" where
  "isArray (Some (JArr xs)) = True"
| "isArray _ = False"

fun getProperty :: "jsval \<Rightarrow> string \<Rightarrow> jsval option" where
  "getProperty (JObj kvs) k = map_of kvs k"
| "getProperty _ k = None"

definition isValidState :: "jsval \<Rightarrow> bool" where
  "isValidState v =
     (if \<not> truthy v \<or> typeof (Some v) \<noteq> ''object'' then False
      else typeof (getProperty v ''onboardingDone'') = ''boolean'' \<and>
           typeof (getProperty v ''teamAName'') = ''string'' \<and>
           typeof (getProperty v ''teamBName'') = ''string'' \<and>
           typeof (getProperty v ''doubleFirstHand'') = ''boolean'' \<and>
           isArray (getProperty v ''rounds'') \<and>
           typeof (getProperty v ''winsA'') = ''number'' \<and>
           typeof (getProperty v ''winsB'') = ''number'')"



definition asRound :: "jsval \<Rightarrow> Round option" where
  "asRound v =
     (case (getProperty v ''id'', getProperty v ''rawA'', getProperty v ''rawB'', getProperty v ''appliedA'',
            getProperty v ''appliedB'', getProperty v ''isDouble'') of
        (Some (JNum i), Some (JNum ra), Some (JNum rb), Some (JNum aa), Some (JNum ab),
         Some (JBool d)) \<Rightarrow>
          Some \<lparr> round_id = i, rawA = ra, rawB = rb, appliedA = aa, appliedB = ab, isDouble = d \<rparr>
      | _ \<Rightarrow> None)"

fun asRounds :: "jsval list \<Rightarrow> Round list option" where
  "asRounds [] = Some []"
| "asRounds (v # vs) =
     (case asRound v of
        None \<Rightarrow> None
      | Some r \<Rightarrow> (case asRounds vs of None \<Rightarrow> None | Some rs \<Rightarrow> Some (r # rs)))"

definition asPersistedState :: "jsval \<Rightarrow> PersistedState option" where
  "asPersistedState v =
     (case (getProperty v ''onboardingDone'', getProperty v ''teamAName'', getProperty v ''teamBName'',
            getProperty v ''doubleFirstHand'', getProperty v ''rounds'', getProperty v ''winsA'', getProperty v ''winsB'') of
        (Some (JBool od), Some (JStr ta), Some (JStr tb), Some (JBool df), Some (JArr vs),
         Some (JNum wa), Some (JNum wb)) \<Rightarrow>
          (case asRounds vs of
             None \<Rightarrow> None
           | Some rs \<Rightarrow> Some \<lparr> onboardingDone = od, teamAName = ta, teamBName = tb,
                               doubleFirstHand = df, rounds = rs, winsA = wa, winsB = wb \<rparr>)
      | _ \<Rightarrow> None)"

datatype 'a narrowed = Typed 'a | Untyped jsval

definition narrow :: "jsval \<Rightarrow> PersistedState narrowed" where
  "narrow v = (case asPersistedState v of Some st \<Rightarrow> Typed st | None \<Rightarrow> Untyped v)"

text \<open>
  \<open>loadInitialState\<close>. \<open>hasWindow\<close> is \<open>typeof window !== 'undefined'\<close> and \<open>raw\<close> is
  what \<open>localStorage.getItem\<close> returned (\<open>None\<close> for null; null and the empty string are
  the falsy cases).
\<close>

definition loadInitialState ::
  "(string \<Rightarrow> jsval option) \<Rightarrow> bool \<Rightarrow> string option \<Rightarrow> PersistedState narrowed" where
  "loadInitialState JSON_parse hasWindow raw =
     (if \<not> hasWindow then Typed defaultState
      else case raw of
        None \<Rightarrow> Typed defaultState
      | Some text \<Rightarrow>
          if text = [] then Typed defaultState
          else (case JSON_parse text of
                  None \<Rightarrow> Typed defaultState
                | Some parsed \<Rightarrow> if isValidState parsed then narrow parsed else Typed defaultState))"


text \<open>
  \<open>importData\<close>. The chosen file is absent, or reading its text fails, or it has a text.
  A failing read and a failing parse both end in the \<open>catch\<close> block.
\<close>

datatype upload = NoFile | ReadFails | FileText string

definition importData :: "(string \<Rightarrow> jsval option) \<Rightarrow> upload \<Rightarrow> App \<Rightarrow> App narrowed" where
  "importData JSON_parse file app =
     (case file of
        NoFile \<Rightarrow> Typed app
      | ReadFails \<Rightarrow> Typed (app\<lparr>error := BackupUnreadable\<rparr>)
      | FileText text \<Rightarrow>
          (case JSON_parse text of
             None \<Rightarrow> Typed (app\<lparr>error := BackupUnreadable\<rparr>)
           | Some parsed \<Rightarrow>
               if \<not> isValidState parsed then Typed (app\<lparr>error := BackupFormatInvalid\<rparr>)
               else (case narrow parsed of
                       Untyped v \<Rightarrow> Untyped v
                     | Typed st \<Rightarrow>
                         Typed (app\<lparr>state := st, teamAInput := teamAName st,
                                    teamBInput := teamBName st,
                                    doubleInput := doubleFirstHand st,
                                    error := NoError, winnerBanner := NoBanner\<rparr>))))"

section \<open>Runs of the component\<close>

text \<open>
  The events of the form: typing into an input, ticking the rule box, and the buttons.
  \<open>SubmitRound now\<close> is the submission of the round form at clock reading \<open>now\<close>.
\<close>

datatype event = TypeTeamA string | TypeTeamB string | TickDouble bool
  | TypeRoundA string | TypeRoundB string
  | SubmitOnboarding | SubmitSettings | SubmitRound number | Undo | Reset

fun step :: "(string \<Rightarrow> jsnum) \<Rightarrow> event \<Rightarrow> App \<Rightarrow> App" where
  "step Number (TypeTeamA s) app = app\<lparr>teamAInput := s\<rparr>"
| "step Number (TypeTeamB s) app = app\<lparr>teamBInput := s\<rparr>"
| "step Number (TickDouble c) app = app\<lparr>doubleInput := c\<rparr>"
| "step Number (TypeRoundA s) app = app\<lparr>roundA := s\<rparr>"
| "step Number (TypeRoundB s) app = app\<lparr>roundB := s\<rparr>"
| "step Number SubmitOnboarding app = saveOnboarding app"
| "step Number SubmitSettings app = saveSettings app"
| "step Number (SubmitRound now) app = addRound Number now app"
| "step Number Undo app = undoRound app"
| "step Number Reset app = resetCurrentGame app"

fun run :: "(string \<Rightarrow> jsnum) \<Rightarrow> event list \<Rightarrow> App \<Rightarrow> App" where
  "run Number [] app = app"
| "run Number (e # es) app = run Number es (step Number e app)"

text \<open>The clock readings at which the round form is submitted during a run, in order.\<close>

fun clockReadings :: "event list \<Rightarrow> number list" where
  "clockReadings [] = []"
| "clockReadings (SubmitRound now # es) = now # clockReadings es"
| "clockReadings (e # es) = clockReadings es"

section \<open>Inputs of the examples\<close>

text \<open>
  The examples need an instance of the host's \<open>Number\<close>. \<open>decimalNumber\<close> reads a string
  of decimal digits as the host does (the empty string is 0) and is \<open>NaN\<close> on every
  other string.
\<close>

definition digitValue :: "char \<Rightarrow> nat option" where
  "digitValue c = map_of (zip ''0123456789'' [0, 1, 2, 3, 4, 5, 6, 7, 8, 9]) c"

fun readDigits :: "string \<Rightarrow> nat \<Rightarrow> nat option" where
  "readDigits [] acc = Some acc"
| "readDigits (c # cs) acc =
     (case digitValue c of None \<Rightarrow> None | Some d \<Rightarrow> readDigits cs (acc * 10 + d))"

definition decimalNumber :: "string \<Rightarrow> jsnum" where
  "decimalNumber s = (case readDigits s 0 of Some n \<Rightarrow> Finite (of_nat n) | None \<Rightarrow> NaN)"

text \<open>
  A match between Rojos and Azules after the hands (30, 10), (40, 20) and (50, 15), with
  35 and 40 typed into the round form.
\<close>

definition exampleMatch :: App where
  "exampleMatch =
     (initialApp (defaultState\<lparr>onboardingDone := True, teamAName := ''Rojos'',
        teamBName := ''Azules'',
        rounds := [\<lparr>round_id = 1, rawA = 30, rawB = 10, appliedA = 30, appliedB = 10, isDouble = False\<rparr>,
                   \<lparr>round_id = 2, rawA = 40, rawB = 20, appliedA = 40, appliedB = 20, isDouble = False\<rparr>,
                   \<lparr>round_id = 3, rawA = 50, rawB = 15, appliedA = 50, appliedB = 15, isDouble = False\<rparr>]\<rparr>))
     \<lparr>roundA := ''35'', roundB := ''40''\<rparr>"

text \<open>A fresh component with the first-hand rule switched on and 20 and 10 typed in.\<close>

definition exampleFirstHand :: App where
  "exampleFirstHand =
     (initialApp (defaultState\<lparr>onboardingDone := True, teamAName := ''Rojos'',
        teamBName := ''Azules'', doubleFirstHand := True\<rparr>))
     \<lparr>roundA := ''20'', roundB := ''10''\<rparr>"

text \<open>
  A backup whose ledger holds \<open>null\<close> and a string instead of rounds; every other field
  is as the type \<open>PersistedState\<close> declares it.
\<close>

definition exampleBrokenBackup :: jsval where
  "exampleBrokenBackup =
     JObj [(''onboardingDone'', JBool True), (''teamAName'', JStr ''Rojos''),
           (''teamBName'', JStr ''Azules''), (''doubleFirstHand'', JBool False),
           (''rounds'', JArr [JNull, JStr ''x'']), (''winsA'', JNum 0), (''winsB'', JNum 0)]"

section \<open>Facts about the pieces\<close>



text \<open>\<open>addRound\<close> on a validated input: the part of the handler after the two checks.\<close>

lemma addRound_accepted:
  assumes "integerValue (rawInput Number (roundA app)) = Some a"
      and "integerValue (rawInput Number (roundB app)) = Some b"
      and "0 \<le> a" and "0 \<le> b" and "\<not> (a = 0 \<and> b = 0)"
  shows "addRound Number now app =
     (let st = state app; t = totals (nextRounds now a b st) in
      if aWon t \<or> bWon t
      then app\<lparr>state := st\<lparr>winsA := (if aWon t then winsA st + 1 else winsA st),
                             winsB := (if bWon t then winsB st + 1 else winsB st),
                             rounds := []\<rparr>,
               winnerBanner := Won (if aWon t then teamAName st else teamBName st),
               roundA := [], roundB := [], error := NoError\<rparr>
      else app\<lparr>state := st\<lparr>rounds := nextRounds now a b st\<rparr>,
               roundA := [], roundB := [], error := NoError\<rparr>)"
  using assms by (auto simp add: addRound_def Let_def)

text \<open>
  \<open>integerValue\<close> picks the finite integers, and together with the sign test the
  natural numbers.
\<close>

lemma integerValue_Some: "integerValue x = Some r \<longleftrightarrow> x = Finite r \<and> r \<in> \<int>"
proof (cases x)
  case (Finite q)
  have "of_int \<lfloor>q\<rfloor> = q \<longleftrightarrow> q \<in> \<int>"
    by (metis Ints_of_int floor_of_int Ints_cases)
  then show ?thesis using Finite by auto
qed simp_all

lemma nonneg_integer_iff:
  "(\<exists>n::nat. x = Finite (of_nat n)) \<longleftrightarrow> (\<exists>r. integerValue x = Some r \<and> 0 \<le> r)"
proof
  assume "\<exists>n::nat. x = Finite (of_nat n)"
  then obtain n :: nat where "x = Finite (of_nat n)" ..
  then have "integerValue x = Some (of_nat n) \<and> (0::rat) \<le> of_nat n"
    by (simp add: integerValue_Some)
  then show "\<exists>r. integerValue x = Some r \<and> 0 \<le> r" by blast
next
  assume "\<exists>r. integerValue x = Some r \<and> 0 \<le> r"
  then obtain r where r: "x = Finite r" "r \<in> \<int>" "0 \<le> r"
    by (auto simp add: integerValue_Some)
  from r(2) obtain z :: int where z: "r = of_int z" by (rule Ints_cases)
  with r(3) have "0 \<le> z" by simp
  then have "r = of_nat (nat z)" using z by simp
  with r(1) show "\<exists>n::nat. x = Finite (of_nat n)" by blast
qed

text \<open>\<open>slice(0, -1)\<close> drops the last element, if there is one.\<close>

lemma slice0_minus_one: "slice0 xs (- 1) = butlast xs"
  by (cases xs rule: rev_cases) (simp_all add: slice0_def Let_def)

text \<open>A string is empty once trimmed exactly when it consists of white space.\<close>

lemma trim_empty_iff: "trim s = [] \<longleftrightarrow> (\<forall>c \<in> set s. isWhiteSpace c)"
proof -
  have "(\<forall>c \<in> set (dropWhile isWhiteSpace s). isWhiteSpace c) \<longleftrightarrow> (\<forall>c \<in> set s. isWhiteSpace c)"
  proof
    assume all: "\<forall>c \<in> set (dropWhile isWhiteSpace s). isWhiteSpace c"
    have "dropWhile isWhiteSpace s = []"
    proof (rule ccontr)
      assume ne: "dropWhile isWhiteSpace s \<noteq> []"
      then have "\<not> isWhiteSpace (hd (dropWhile isWhiteSpace s))"
        by (rule hd_dropWhile)
      moreover from ne have "hd (dropWhile isWhiteSpace s) \<in> set (dropWhile isWhiteSpace s)"
        by simp
      ultimately show False using all by blast
    qed
    then show "\<forall>c \<in> set s. isWhiteSpace c"
      by (simp add: dropWhile_eq_Nil_conv)
  next
    assume "\<forall>c \<in> set s. isWhiteSpace c"
    then show "\<forall>c \<in> set (dropWhile isWhiteSpace s). isWhiteSpace c"
      by (meson set_dropWhileD)
  qed
  then show ?thesis
    by (simp add: trim_def dropWhile_eq_Nil_conv)
qed

text \<open>
  What one event can do to the ledger: nothing, empty it, drop its last round, or append
  the round built at a submission. Two invariants of runs follow: only a first round is
  marked as doubled, and identifiers stay distinct as long as the clock readings of the
  submissions still to come are new.
\<close>

lemma addRound_ledger:
  "rounds (state (addRound Number now app)) = rounds (state app) \<or>
   rounds (state (addRound Number now app)) = [] \<or>
   (\<exists>a b. rounds (state (addRound Number now app))
            = rounds (state app) @ [nextRound now a b (state app)])"
  by (auto simp add: addRound_def Let_def nextRounds_def split: option.splits)

lemma step_ledger:
  "rounds (state (step Number e app)) = rounds (state app) \<or>
   rounds (state (step Number e app)) = [] \<or>
   rounds (state (step Number e app)) = butlast (rounds (state app)) \<or>
   (\<exists>now a b. e = SubmitRound now \<and> rounds (state (step Number e app))
            = rounds (state app) @ [nextRound now a b (state app)])"
proof (cases e)
  case (SubmitRound now)
  then show ?thesis using addRound_ledger [of Number now app] by auto
next
  case Undo
  then show ?thesis by (simp add: undoRound_def slice0_minus_one)
qed (simp_all add: saveOnboarding_def saveSettings_def resetCurrentGame_def Let_def)

lemma step_keeps_doubled_first:
  assumes "\<forall>r \<in> set (tl (rounds (state app))). \<not> isDouble r"
  shows "\<forall>r \<in> set (tl (rounds (state (step Number e app)))). \<not> isDouble r"
proof -
  let ?rs = "rounds (state app)" and ?rs' = "rounds (state (step Number e app))"
  consider "?rs' = ?rs" | "?rs' = []" | "?rs' = butlast ?rs"
    | now a b where "?rs' = ?rs @ [nextRound now a b (state app)]"
    using step_ledger [of Number e app] by blast
  then show ?thesis
  proof cases
    case 3
    have "set (tl (butlast ?rs)) \<subseteq> set (tl ?rs)"
      by (metis butlast_tl in_set_butlastD subsetI)
    with 3 assms show ?thesis by auto
  next
    case 4
    show ?thesis
    proof (cases "?rs = []")
      case True
      with 4 show ?thesis by simp
    next
      case False
      then have "\<not> isDouble (nextRound now a b (state app))"
        by (simp add: nextRound_def firstHandDouble_def)
      with 4 False assms show ?thesis by auto
    qed
  qed (use assms in simp_all)
qed

lemma run_keeps_doubled_first:
  "\<forall>r \<in> set (tl (rounds (state app))). \<not> isDouble r \<Longrightarrow>
   \<forall>r \<in> set (tl (rounds (state (run Number es app)))). \<not> isDouble r"
proof (induction es arbitrary: app)
  case Nil
  then show ?case by simp
next
  case (Cons e es)
  from Cons.prems have "\<forall>r \<in> set (tl (rounds (state (step Number e app)))). \<not> isDouble r"
    by (rule step_keeps_doubled_first)
  then show ?case using Cons.IH by simp
qed

lemma step_keeps_distinct_ids:
  assumes "distinct (map round_id (rounds (state app)))"
      and "\<forall>r \<in> set (rounds (state app)). round_id r \<notin> set (clockReadings (e # es))"
      and "distinct (clockReadings (e # es))"
  shows "distinct (map round_id (rounds (state (step Number e app)))) \<and>
         (\<forall>r \<in> set (rounds (state (step Number e app))). round_id r \<notin> set (clockReadings es))"
proof -
  let ?rs = "rounds (state app)" and ?rs' = "rounds (state (step Number e app))"
  have later: "\<forall>r \<in> set ?rs. round_id r \<notin> set (clockReadings es)"
    using assms(2) by (cases e) simp_all
  consider "?rs' = ?rs" | "?rs' = []" | "?rs' = butlast ?rs"
    | now a b where "e = SubmitRound now" "?rs' = ?rs @ [nextRound now a b (state app)]"
    using step_ledger [of Number e app] by blast
  then show ?thesis
  proof cases
    case 1
    with assms(1) later show ?thesis by simp
  next
    case 2
    then show ?thesis by simp
  next
    case 3
    with assms(1) later show ?thesis
      by (auto simp add: map_butlast distinct_butlast dest: in_set_butlastD)
  next
    case 4
    have id: "round_id (nextRound now a b (state app)) = now"
      by (simp add: nextRound_def)
    from 4(1) assms(2) have fresh: "now \<notin> round_id ` set ?rs" by auto
    from 4(1) assms(3) have unused: "now \<notin> set (clockReadings es)" by simp
    from 4(2) assms(1) id later fresh unused show ?thesis by auto
  qed
qed

lemma run_keeps_distinct_ids:
  "distinct (map round_id (rounds (state app))) \<Longrightarrow>
   \<forall>r \<in> set (rounds (state app)). round_id r \<notin> set (clockReadings es) \<Longrightarrow>
   distinct (clockReadings es) \<Longrightarrow>
   distinct (map round_id (rounds (state (run Number es app))))"
proof (induction es arbitrary: app)
  case Nil
  then show ?case by simp
next
  case (Cons e es)
  from Cons.prems have step: "distinct (map round_id (rounds (state (step Number e app)))) \<and>
    (\<forall>r \<in> set (rounds (state (step Number e app))). round_id r \<notin> set (clockReadings es))"
    by (rule step_keeps_distinct_ids)
  from Cons.prems(3) have "distinct (clockReadings es)"
    by (cases e) simp_all
  with step Cons.IH [of "step Number e app"] show ?case by simp
qed





text \<open>
  What \<open>isValidState\<close> establishes: an object whose seven properties have the listed
  kinds, the ledger being some array. When it fails, loading falls back to the default
  state and importing sets the message and nothing else.
\<close>

lemma typeof_boolean: "typeof x = ''boolean'' \<longleftrightarrow> (\<exists>b. x = Some (JBool b))"
  by (cases x rule: typeof.cases) simp_all

lemma typeof_string: "typeof x = ''string'' \<longleftrightarrow> (\<exists>s. x = Some (JStr s))"
  by (cases x rule: typeof.cases) simp_all

lemma typeof_number: "typeof x = ''number'' \<longleftrightarrow> (\<exists>n. x = Some (JNum n))"
  by (cases x rule: typeof.cases) simp_all

lemma isArray_iff: "isArray x \<longleftrightarrow> (\<exists>vs. x = Some (JArr vs))"
  by (cases x rule: isArray.cases) simp_all

lemma isValidState_iff:
  "isValidState v \<longleftrightarrow>
     (\<exists>kvs od ta tb df vs wa wb. v = JObj kvs \<and>
        map_of kvs ''onboardingDone'' = Some (JBool od) \<and>
        map_of kvs ''teamAName'' = Some (JStr ta) \<and>
        map_of kvs ''teamBName'' = Some (JStr tb) \<and>
        map_of kvs ''doubleFirstHand'' = Some (JBool df) \<and>
        map_of kvs ''rounds'' = Some (JArr vs) \<and>
        map_of kvs ''winsA'' = Some (JNum wa) \<and>
        map_of kvs ''winsB'' = Some (JNum wb))"
  by (cases v)
     (simp_all add: isValidState_def typeof_boolean typeof_string typeof_number isArray_iff)

lemma loadInitialState_default:
  "\<not> hasWindow \<or> raw = None \<or> raw = Some [] \<or>
   (\<exists>text. raw = Some text \<and>
      (JSON_parse text = None \<or> (\<exists>v. JSON_parse text = Some v \<and> \<not> isValidState v))) \<Longrightarrow>
   loadInitialState JSON_parse hasWindow raw = Typed defaultState"
  by (auto simp add: loadInitialState_def split: option.splits)

lemma importData_rejects:
  "JSON_parse text = Some v \<Longrightarrow> \<not> isValidState v \<Longrightarrow>
   importData JSON_parse (FileText text) app = Typed (app\<lparr>error := BackupFormatInvalid\<rparr>)"
  by (simp add: importData_def)

section \<open>The claims\<close>

subsection \<open>Win condition\<close>



subsection \<open>What a round does to the state\<close>



subsection \<open>Doubling the first hand\<close>

text \<open>
  Claim C3. For every state and every accepted round input, the round built for the hand
  carries the raw values as entered, and its applied values are double its raw values if
  and only if the rule flag of the current state is set and the ledger is empty at that
  moment; the same condition decides its \<open>isDouble\<close> mark. With a non-empty ledger the
  applied values are the raw ones. Unless the hand wins the match, this round is the one
  appended to the ledger. After a hand that wins the match, and after a reset, the ledger
  is empty, so that the next hand is doubled exactly when the flag is set.
\<close>

theorem double_first_hand:
  assumes "integerValue (rawInput Number (roundA app)) = Some a"
      and "integerValue (rawInput Number (roundB app)) = Some b"
      and "0 \<le> a" and "0 \<le> b" and "\<not> (a = 0 \<and> b = 0)"
  shows "let st = state app;
             r = nextRound now a b st;
             app' = addRound Number now app;
             won = (aWon (totals (rounds st @ [r])) \<or> bWon (totals (rounds st @ [r])))
         in rawA r = a \<and> rawB r = b \<and>
            ((appliedA r = 2 * rawA r \<and> appliedB r = 2 * rawB r)
               \<longleftrightarrow> (doubleFirstHand st \<and> rounds st = [])) \<and>
            (isDouble r \<longleftrightarrow> (doubleFirstHand st \<and> rounds st = [])) \<and>
            (rounds st \<noteq> [] \<longrightarrow> appliedA r = rawA r \<and> appliedB r = rawB r \<and> \<not> isDouble r) \<and>
            (\<not> won \<longrightarrow> rounds (state app') = rounds st @ [r]) \<and>
            (won \<longrightarrow> rounds (state app') = [] \<and>
               firstHandDouble (state app') = doubleFirstHand st) \<and>
            rounds (state (resetCurrentGame app)) = [] \<and>
            firstHandDouble (state (resetCurrentGame app)) = doubleFirstHand st"
  unfolding addRound_accepted [OF assms]
  using assms(3-5)
  by (auto simp add: Let_def nextRounds_def nextRound_def firstHandDouble_def resetCurrentGame_def)

theorem double_first_hand_witness:
  "integerValue (rawInput decimalNumber (roundA exampleFirstHand)) = Some 20 \<and>
   integerValue (rawInput decimalNumber (roundB exampleFirstHand)) = Some 10 \<and>
   appliedA (nextRound 1 20 10 (state exampleFirstHand)) = 40 \<and>
   appliedB (nextRound 1 20 10 (state exampleFirstHand)) = 20 \<and>
   isDouble (nextRound 1 20 10 (state exampleFirstHand)) \<and>
   rounds (state (addRound decimalNumber 1 exampleFirstHand))
     = [nextRound 1 20 10 (state exampleFirstHand)] \<and>
   integerValue (rawInput decimalNumber (roundA exampleMatch)) = Some 35 \<and>
   integerValue (rawInput decimalNumber (roundB exampleMatch)) = Some 40 \<and>
   appliedA (nextRound 4 35 40 ((state exampleMatch)\<lparr>doubleFirstHand := True\<rparr>)) = 35 \<and>
   appliedB (nextRound 4 35 40 ((state exampleMatch)\<lparr>doubleFirstHand := True\<rparr>)) = 40"
proof -
  have a: "integerValue (rawInput decimalNumber (roundA exampleFirstHand)) = Some 20"
    by (simp add: exampleFirstHand_def rawInput_def decimalNumber_def digitValue_def)
  have b: "integerValue (rawInput decimalNumber (roundB exampleFirstHand)) = Some 10"
    by (simp add: exampleFirstHand_def rawInput_def decimalNumber_def digitValue_def)
  have c: "(0::rat) \<le> 20" "(0::rat) \<le> 10" "\<not> ((20::rat) = 0 \<and> (10::rat) = 0)"
    by simp_all
  let ?later = "exampleMatch\<lparr>state := (state exampleMatch)\<lparr>doubleFirstHand := True\<rparr>\<rparr>"
  have d: "integerValue (rawInput decimalNumber (roundA ?later)) = Some 35"
    by (simp add: exampleMatch_def rawInput_def decimalNumber_def digitValue_def)
  have e: "integerValue (rawInput decimalNumber (roundB ?later)) = Some 40"
    by (simp add: exampleMatch_def rawInput_def decimalNumber_def digitValue_def)
  have f: "(0::rat) \<le> 35" "(0::rat) \<le> 40" "\<not> ((35::rat) = 0 \<and> (40::rat) = 0)"
    by simp_all
  have first: "appliedA (nextRound 1 20 10 (state exampleFirstHand)) = 40 \<and>
      appliedB (nextRound 1 20 10 (state exampleFirstHand)) = 20 \<and>
      isDouble (nextRound 1 20 10 (state exampleFirstHand)) \<and>
      rounds (state (addRound decimalNumber 1 exampleFirstHand))
        = [nextRound 1 20 10 (state exampleFirstHand)]"
    using double_first_hand [OF a b c, of 1]
    by (simp add: Let_def exampleFirstHand_def initialApp_def defaultState_def totals_def
        aWon_def bWon_def TARGET_SCORE_def nextRound_def firstHandDouble_def)
  have later: "appliedA (nextRound 4 35 40 ((state exampleMatch)\<lparr>doubleFirstHand := True\<rparr>)) = 35 \<and>
      appliedB (nextRound 4 35 40 ((state exampleMatch)\<lparr>doubleFirstHand := True\<rparr>)) = 40"
    using double_first_hand [OF d e f, of 4]
    by (simp add: Let_def exampleMatch_def initialApp_def defaultState_def)
  from a b first later d e show ?thesis
    by (simp add: exampleMatch_def)
qed

subsection \<open>Rejected rounds\<close>

text \<open>
  Claim C5. For every content of the two round fields, with the value of a field being 0
  when the field is empty and what \<open>Number\<close> makes of its text otherwise: the round is
  rejected if and only if one of the values is not a non-negative integer or both are
  zero (the first case with the message that asks for integers, the second with the
  message that asks for points); a rejected round changes nothing but the message, so
  the ledger and the whole persisted state stay as they were.
\<close>

theorem addRound_rejection:
  "let ra = rawInput Number (roundA app);
       rb = rawInput Number (roundB app);
       app' = addRound Number now app
   in (error app' = IntegersRequired \<longleftrightarrow>
         \<not> ((\<exists>m::nat. ra = Finite (of_nat m)) \<and> (\<exists>n::nat. rb = Finite (of_nat n)))) \<and>
      (error app' = PointsRequired \<longleftrightarrow> ra = Finite 0 \<and> rb = Finite 0) \<and>
      (error app' \<noteq> NoError \<longleftrightarrow>
         \<not> (\<exists>m::nat. ra = Finite (of_nat m)) \<or> \<not> (\<exists>n::nat. rb = Finite (of_nat n)) \<or>
         (ra = Finite 0 \<and> rb = Finite 0)) \<and>
      (error app' \<noteq> NoError \<longrightarrow> app' = app\<lparr>error := error app'\<rparr> \<and> state app' = state app) \<and>
      rawInput Number [] = Finite 0"
proof -
  define ra where "ra = rawInput Number (roundA app)"
  define rb where "rb = rawInput Number (roundB app)"
  have zero: "rawInput Number [] = Finite 0"
    by (simp add: rawInput_def)
  show ?thesis
  proof (cases "integerValue ra")
    case None
    then have "\<not> (\<exists>m::nat. ra = Finite (of_nat m))" "ra \<noteq> Finite 0"
      by (auto simp add: nonneg_integer_iff)
    with None zero show ?thesis
      by (simp add: addRound_def Let_def ra_def [symmetric])
  next
    case (Some a)
    note A = this
    show ?thesis
    proof (cases "integerValue rb")
      case None
      then have "\<not> (\<exists>n::nat. rb = Finite (of_nat n))" "rb \<noteq> Finite 0"
        by (auto simp add: nonneg_integer_iff)
      with None A zero show ?thesis
        by (simp add: addRound_def Let_def ra_def [symmetric] rb_def [symmetric])
    next
      case (Some b)
      from A Some have fin: "ra = Finite a" "rb = Finite b"
        by (simp_all add: integerValue_Some)
      have nn: "(\<exists>m::nat. ra = Finite (of_nat m)) \<longleftrightarrow> 0 \<le> a"
               "(\<exists>n::nat. rb = Finite (of_nat n)) \<longleftrightarrow> 0 \<le> b"
        using A Some by (simp_all add: nonneg_integer_iff)
      show ?thesis
        using A Some zero nn unfolding fin(1) [symmetric] fin(2) [symmetric]
        apply (simp add: addRound_def Let_def ra_def [symmetric] rb_def [symmetric] del: ex_simps)
        apply (auto simp add: fin)
        done
    qed
  qed
qed

theorem addRound_rejection_witness:
  "error (addRound decimalNumber 9 (initialApp defaultState)) = PointsRequired \<and>
   state (addRound decimalNumber 9 (initialApp defaultState)) = defaultState \<and>
   error (addRound decimalNumber 9 (exampleMatch\<lparr>roundA := ''x''\<rparr>)) = IntegersRequired \<and>
   state (addRound decimalNumber 9 (exampleMatch\<lparr>roundA := ''x''\<rparr>)) = state exampleMatch"
proof -
  have "error (addRound decimalNumber 9 (initialApp defaultState)) = PointsRequired \<and>
        state (addRound decimalNumber 9 (initialApp defaultState)) = defaultState"
    using addRound_rejection [of decimalNumber "initialApp defaultState" 9]
    by (simp add: Let_def rawInput_def initialApp_def)
  moreover have "error (addRound decimalNumber 9 (exampleMatch\<lparr>roundA := ''x''\<rparr>)) = IntegersRequired \<and>
        state (addRound decimalNumber 9 (exampleMatch\<lparr>roundA := ''x''\<rparr>)) = state exampleMatch"
    using addRound_rejection [of decimalNumber "exampleMatch\<lparr>roundA := ''x''\<rparr>" 9]
    by (simp add: Let_def rawInput_def decimalNumber_def digitValue_def)
  ultimately show ?thesis by blast
qed

subsection \<open>Undo\<close>

text \<open>
  Claim C7. For every state: on an empty ledger \<open>undoRound\<close> changes nothing; on a ledger
  of N rounds, N at least 1, it leaves the first N - 1 rounds as they were and drops the
  last one; in both cases everything but the ledger (win counters, configuration, the
  rest of the component) is untouched.
\<close>

theorem undoRound_removes_last:
  "(rounds (state app) = [] \<longrightarrow> undoRound app = app) \<and>
   (rounds (state app) \<noteq> [] \<longrightarrow>
      rounds (state app) = rounds (state (undoRound app)) @ [last (rounds (state app))]) \<and>
   rounds (state (undoRound app)) = take (length (rounds (state app)) - 1) (rounds (state app)) \<and>
   undoRound app = app\<lparr>state := (state app)\<lparr>rounds := rounds (state (undoRound app))\<rparr>\<rparr>"
proof -
  have ledger: "rounds (state (undoRound app)) = butlast (rounds (state app))"
    by (simp add: undoRound_def slice0_minus_one)
  have noop: "rounds (state app) = [] \<longrightarrow> undoRound app = app"
    by (simp add: undoRound_def slice0_minus_one)
  have rest: "undoRound app = app\<lparr>state := (state app)\<lparr>rounds := rounds (state (undoRound app))\<rparr>\<rparr>"
    by (simp add: undoRound_def)
  have split: "rounds (state app) \<noteq> [] \<longrightarrow>
      rounds (state app) = rounds (state (undoRound app)) @ [last (rounds (state app))]"
    by (simp add: ledger)
  have prefix: "rounds (state (undoRound app))
      = take (length (rounds (state app)) - 1) (rounds (state app))"
    by (simp add: ledger butlast_conv_take)
  from noop split prefix rest show ?thesis
    by blast
qed

theorem undoRound_removes_last_witness:
  "undoRound (initialApp defaultState) = initialApp defaultState \<and>
   rounds (state exampleMatch) \<noteq> [] \<and>
   map round_id (rounds (state (undoRound exampleMatch))) = [1, 2] \<and>
   winsA (state (undoRound exampleMatch)) = winsA (state exampleMatch)"
proof -
  have "rounds (state (initialApp defaultState)) = []"
    by (simp add: initialApp_def defaultState_def)
  with undoRound_removes_last [of "initialApp defaultState", THEN conjunct1]
  have noop: "undoRound (initialApp defaultState) = initialApp defaultState"
    by (rule mp)
  have some: "rounds (state exampleMatch) \<noteq> []"
    by (simp add: exampleMatch_def initialApp_def defaultState_def)
  from undoRound_removes_last [of exampleMatch, THEN conjunct2, THEN conjunct2, THEN conjunct1]
  have ids: "map round_id (rounds (state (undoRound exampleMatch))) = [1, 2]"
    by (simp add: exampleMatch_def initialApp_def defaultState_def)
  have "winsA (state (exampleMatch\<lparr>state := (state exampleMatch)\<lparr>rounds := rounds (state (undoRound exampleMatch))\<rparr>\<rparr>))
          = winsA (state exampleMatch)"
    by simp
  with undoRound_removes_last [of exampleMatch, THEN conjunct2, THEN conjunct2, THEN conjunct2]
  have wins: "winsA (state (undoRound exampleMatch)) = winsA (state exampleMatch)"
    by metis
  from noop some ids wins show ?thesis by blast
qed

subsection \<open>Team names\<close>



subsection \<open>Round identifiers\<close>

text \<open>
  Claim C9 says that in every state reached without an import the rounds of the ledger
  have pairwise distinct identifiers. The identifier of a round is the clock reading at
  its submission and nothing else, so two hands submitted at the same reading get the
  same identifier: the run below, in which both submissions read 1000, ends with two
  rounds that share it.
\<close>

theorem round_ids_repeat_counterexample:
  "\<not> distinct (map round_id (rounds (state (run decimalNumber
       [TypeTeamA ''Rojos'', TypeTeamB ''Azules'', SubmitOnboarding,
        TypeRoundA ''30'', SubmitRound 1000, TypeRoundB ''25'', SubmitRound 1000]
       (initialApp defaultState)))))"
  by (simp add: saveOnboarding_def trim_def isWhiteSpace_def toLowerCase_def lowerChar_def
        addRound_def Let_def rawInput_def decimalNumber_def digitValue_def
        initialApp_def defaultState_def nextRounds_def nextRound_def firstHandDouble_def
        totals_def aWon_def bWon_def TARGET_SCORE_def)

text \<open>
  Claim C9, amended. In every state reached from the default state by a run of form
  events in which no two submissions of the round form happen at the same clock reading,
  the rounds of the ledger have pairwise distinct identifiers.
\<close>

theorem round_ids_distinct:
  assumes "distinct (clockReadings es)"
  shows "distinct (map round_id (rounds (state (run Number es (initialApp defaultState)))))"
  using assms by (intro run_keeps_distinct_ids) (simp_all add: initialApp_def defaultState_def)

theorem round_ids_distinct_witness:
  "distinct (clockReadings [TypeTeamA ''Rojos'', TypeTeamB ''Azules'', SubmitOnboarding,
        TypeRoundA ''30'', SubmitRound 1000, TypeRoundB ''25'', SubmitRound 1001]) \<and>
   distinct (map round_id (rounds (state (run decimalNumber
       [TypeTeamA ''Rojos'', TypeTeamB ''Azules'', SubmitOnboarding,
        TypeRoundA ''30'', SubmitRound 1000, TypeRoundB ''25'', SubmitRound 1001]
       (initialApp defaultState))))) \<and>
   map round_id (rounds (state (run decimalNumber
       [TypeTeamA ''Rojos'', TypeTeamB ''Azules'', SubmitOnboarding,
        TypeRoundA ''30'', SubmitRound 1000, TypeRoundB ''25'', SubmitRound 1001]
       (initialApp defaultState)))) = [1000, 1001]"
proof -
  have h: "distinct (clockReadings [TypeTeamA ''Rojos'', TypeTeamB ''Azules'', SubmitOnboarding,
        TypeRoundA ''30'', SubmitRound 1000, TypeRoundB ''25'', SubmitRound 1001])"
    by simp
  have ids: "map round_id (rounds (state (run decimalNumber
       [TypeTeamA ''Rojos'', TypeTeamB ''Azules'', SubmitOnboarding,
        TypeRoundA ''30'', SubmitRound 1000, TypeRoundB ''25'', SubmitRound 1001]
       (initialApp defaultState)))) = [1000, 1001]"
    by (simp add: saveOnboarding_def trim_def isWhiteSpace_def toLowerCase_def lowerChar_def
        addRound_def Let_def rawInput_def decimalNumber_def digitValue_def
        initialApp_def defaultState_def nextRounds_def nextRound_def firstHandDouble_def
        totals_def aWon_def bWon_def TARGET_SCORE_def)
  from h round_ids_distinct [OF h, of decimalNumber] ids show ?thesis by blast
qed

subsection \<open>The doubled round is the first\<close>

text \<open>
  Claim C10. In every state reached from the default state by a run of form events
  (typing, configuration, round submissions, undo, reset), a round marked as doubled is
  at the first position of the ledger, and so at most one round of the ledger is marked.
\<close>

theorem doubled_round_is_first:
  "let rs = rounds (state (run Number es (initialApp defaultState)))
   in (\<forall>i < length rs. isDouble (rs ! i) \<longrightarrow> i = 0) \<and> length (filter isDouble rs) \<le> 1"
proof -
  define rs where "rs = rounds (state (run Number es (initialApp defaultState)))"
  have "\<forall>r \<in> set (tl (rounds (state (initialApp defaultState)))). \<not> isDouble r"
    by (simp add: initialApp_def defaultState_def)
  then have inv: "\<forall>r \<in> set (tl rs). \<not> isDouble r"
    unfolding rs_def by (rule run_keeps_doubled_first)
  have first: "\<forall>i < length rs. isDouble (rs ! i) \<longrightarrow> i = 0"
  proof (intro allI impI)
    fix i assume i: "i < length rs" and d: "isDouble (rs ! i)"
    show "i = 0"
    proof (rule ccontr)
      assume "i \<noteq> 0"
      then obtain j where j: "i = Suc j" by (cases i) auto
      with i have "rs ! i = tl rs ! j" "j < length (tl rs)"
        by (cases rs; simp)+
      then have "rs ! i \<in> set (tl rs)" by (metis nth_mem)
      with inv d show False by blast
    qed
  qed
  have "filter isDouble (tl rs) = []"
    using inv by (simp add: filter_empty_conv)
  then have once: "length (filter isDouble rs) \<le> 1"
    by (cases rs) simp_all
  from first once show ?thesis
    unfolding rs_def [symmetric] by (simp add: Let_def)
qed

theorem doubled_round_is_first_witness:
  "map isDouble (rounds (state (run decimalNumber
       [TypeTeamA ''Rojos'', TypeTeamB ''Azules'', TickDouble True, SubmitOnboarding,
        TypeRoundA ''20'', TypeRoundB ''10'', SubmitRound 1,
        TypeRoundA ''10'', TypeRoundB ''10'', SubmitRound 2]
       (initialApp defaultState)))) = [True, False] \<and>
   length (filter isDouble (rounds (state (run decimalNumber
       [TypeTeamA ''Rojos'', TypeTeamB ''Azules'', TickDouble True, SubmitOnboarding,
        TypeRoundA ''20'', TypeRoundB ''10'', SubmitRound 1,
        TypeRoundA ''10'', TypeRoundB ''10'', SubmitRound 2]
       (initialApp defaultState))))) \<le> 1"
proof -
  have marks: "map isDouble (rounds (state (run decimalNumber
       [TypeTeamA ''Rojos'', TypeTeamB ''Azules'', TickDouble True, SubmitOnboarding,
        TypeRoundA ''20'', TypeRoundB ''10'', SubmitRound 1,
        TypeRoundA ''10'', TypeRoundB ''10'', SubmitRound 2]
       (initialApp defaultState)))) = [True, False]"
    by (simp add: saveOnboarding_def trim_def isWhiteSpace_def toLowerCase_def lowerChar_def
        addRound_def Let_def rawInput_def decimalNumber_def digitValue_def
        initialApp_def defaultState_def nextRounds_def nextRound_def firstHandDouble_def
        totals_def aWon_def bWon_def TARGET_SCORE_def)
  from marks doubled_round_is_first [of decimalNumber
       "[TypeTeamA ''Rojos'', TypeTeamB ''Azules'', TickDouble True, SubmitOnboarding,
        TypeRoundA ''20'', TypeRoundB ''10'', SubmitRound 1,
        TypeRoundA ''10'', TypeRoundB ''10'', SubmitRound 2]"]
  show ?thesis by (simp add: Let_def)
qed

subsection \<open>Backup round trip\<close>



subsection \<open>The shape check\<close>

text \<open>
  Claim C4 says that a document passes the shape check of \<open>loadInitialState\<close> and
  \<open>importData\<close> only if its ledger is a sequence of round-shaped records. Both do use
  the same check, \<open>isValidState\<close>, and both fall back as described when it fails; but the
  check looks at the ledger with \<open>Array.isArray\<close> only. The backup below, whose ledger
  holds \<open>null\<close> and a string, passes it, is not a \<open>PersistedState\<close>, and is what
  \<open>loadInitialState\<close> returns and \<open>importData\<close> installs.
\<close>

theorem isValidState_ignores_round_shape:
  "isValidState exampleBrokenBackup \<and>
   asPersistedState exampleBrokenBackup = None \<and>
   loadInitialState (\<lambda>t. Some exampleBrokenBackup) True (Some ''backup'')
     = Untyped exampleBrokenBackup \<and>
   importData (\<lambda>t. Some exampleBrokenBackup) (FileText ''backup'') exampleMatch
     = Untyped exampleBrokenBackup"
  by (simp add: isValidState_def exampleBrokenBackup_def loadInitialState_def importData_def
      narrow_def asPersistedState_def asRound_def)

theorem isValidState_ignores_round_shape_witness:
  "isValidState exampleBrokenBackup \<and> narrow exampleBrokenBackup = Untyped exampleBrokenBackup"
  using isValidState_ignores_round_shape by (simp add: narrow_def)

end
